theory Spec2Isabelle
  imports Complex_Main
begin

section \<open>Automatic gain control (\<open>src/agc/src/agc.c\<close>)\<close>

text \<open>
  The C file instantiates \<open>T = float\<close> and \<open>TC = float complex\<close>. The code is read twice.

  \<^item> Over the reals (\<open>agc\<close>, \<open>agc_execute\<close>): \<open>T\<close> is \<^typ>\<open>real\<close> and \<open>TC\<close> is
    \<^typ>\<open>complex\<close>, with no rounding and no overflow. The three operations whose IEEE
    result is not a real number (a division by zero, \<open>sqrtf\<close> of a negative number,
    \<open>logf\<close> of a number that is not positive) are results of their own, so that nothing
    relies on the value HOL gives to \<open>a / 0\<close>, \<open>sqrt\<close> or \<open>ln\<close> outside their domain.
    This reading states which formulas the code applies and which fields it writes.

  \<^item> Over IEEE values (\<open>agc_fl\<close>, \<open>agc_execute_fl\<close>): a value is a finite real, one of
    the two infinities, or NaN; a result too large becomes an infinity, a result below
    half the smallest subnormal becomes zero, and an invalid operation gives NaN, which
    every comparison rejects. Rounding of the mantissa and the sign of zero are left
    out. This reading states what the limiter guarantees, where an infinity or a NaN
    decides the matter.
\<close>

subsection \<open>The object\<close>

text \<open>\<open>liquid_agc_type\<close> is declared in the library header; the file uses these three tags.\<close>

datatype liquid_agc_type = LIQUID_AGC_DEFAULT | LIQUID_AGC_LOG | LIQUID_AGC_EXP

text \<open>\<open>struct agc_s\<close>. The flag \<open>is_locked\<close> is an \<open>int\<close> that only ever holds 0 or 1.\<close>

record agc =
  type :: liquid_agc_type
  e_target :: real
  g :: real
  g_min :: real
  g_max :: real
  BT :: real
  alpha :: real
  beta :: real
  e :: real
  e_hat :: real
  e_prime :: real
  is_locked :: bool

subsection \<open>Outcomes of a call\<close>

text \<open>
  \<open>Exited q\<close>: the call printed its message and ran \<open>exit(-1)\<close> while the object was \<open>q\<close>
  (the specification calls this failure \<open>InvalidParameter\<close>). The other three are the
  arithmetic results outside the reals.
\<close>

datatype fault = Exited agc | Div_by_zero | Sqrt_domain | Log_domain

fun seq :: "fault + 'a \<Rightarrow> ('a \<Rightarrow> fault + 'b) \<Rightarrow> fault + 'b" where
  "seq (Inl f) k = Inl f"
| "seq (Inr v) k = k v"

definition fdiv :: "real \<Rightarrow> real \<Rightarrow> fault + real" where
  "fdiv a b = (if b = 0 then Inl Div_by_zero else Inr (a / b))"

definition sqrtf :: "real \<Rightarrow> fault + real" where
  "sqrtf a = (if a < 0 then Inl Sqrt_domain else Inr (sqrt a))"

definition logf :: "real \<Rightarrow> fault + real" where
  "logf a = (if a \<le> 0 then Inl Log_domain else Inr (ln a))"

definition expf :: "real \<Rightarrow> real" where
  "expf a = exp a"

subsection \<open>Setters, lock and reset\<close>

definition agc_unlock :: "agc \<Rightarrow> agc" where
  "agc_unlock q = q\<lparr>is_locked := False\<rparr>"

definition agc_lock :: "agc \<Rightarrow> agc" where
  "agc_lock q = q\<lparr>is_locked := True\<rparr>"

definition agc_reset :: "agc \<Rightarrow> agc" where
  "agc_reset q = agc_unlock (q\<lparr>e_prime := 1, e_hat := 1\<rparr>)"

definition agc_set_target :: "agc \<Rightarrow> real \<Rightarrow> fault + agc" where
  "agc_set_target q e_target' =
     (if e_target' \<le> 0 then Inl (Exited q)
      else Inr (q\<lparr>e_target := e_target'\<rparr>))"

definition agc_set_gain_limits :: "agc \<Rightarrow> real \<Rightarrow> real \<Rightarrow> fault + agc" where
  "agc_set_gain_limits q g_min' g_max' =
     (if g_min' > g_max' then Inl (Exited q)
      else Inr (q\<lparr>g_min := g_min', g_max := g_max'\<rparr>))"

definition agc_set_bandwidth :: "agc \<Rightarrow> real \<Rightarrow> fault + agc" where
  "agc_set_bandwidth q BT' =
     (if BT' < 0 then Inl (Exited q)
      else if BT' > 1 then Inl (Exited q)
      else let q1 = q\<lparr>BT := BT'\<rparr> in
        seq (sqrtf (BT q1)) (\<lambda>r.
        let q2 = q1\<lparr>alpha := r\<rparr> in
        Inr (q2\<lparr>beta := 1 - alpha q2\<rparr>)))"

text \<open>
  \<open>agc_create\<close>: \<open>raw\<close> is the block \<open>malloc\<close> returned. Every field is written except
  \<open>e\<close>, which keeps whatever the block held.
\<close>

definition agc_create :: "agc \<Rightarrow> fault + agc" where
  "agc_create raw =
     (let q1 = raw\<lparr>type := LIQUID_AGC_LOG\<rparr>;
          q2 = q1\<lparr>e_prime := 1, e_hat := 1\<rparr>;
          q3 = q2\<lparr>g := 1, g_min := 1 / 1000000, g_max := 1000000\<rparr>
      in seq (agc_set_target q3 1) (\<lambda>q4.
         seq (agc_set_bandwidth q4 0) (\<lambda>q5.
         Inr (q5\<lparr>is_locked := False\<rparr>))))"

definition agc_get_signal_level :: "agc \<Rightarrow> fault + real" where
  "agc_get_signal_level q = fdiv (e_target q) (g q)"

definition agc_get_gain :: "agc \<Rightarrow> real" where
  "agc_get_gain q = g q"

subsection \<open>The three update laws, the limiter and \<open>agc_execute\<close>\<close>

definition agc_estimate_gain_default :: "agc \<Rightarrow> complex \<Rightarrow> fault + agc" where
  "agc_estimate_gain_default q x =
     (let zeta = 0.1;
          q1 = q\<lparr>e := Re (x * cnj x)\<rparr>;
          q2 = q1\<lparr>e_prime := e q1 * zeta + e_prime q1 * (1 - zeta)\<rparr>
      in seq (sqrtf (e_prime q2)) (\<lambda>r.
         let q3 = q2\<lparr>e_hat := r\<rparr> in
         seq (fdiv (e_target q3) (e_hat q3)) (\<lambda>gi.
         Inr (q3\<lparr>g := beta q3 * g q3 + alpha q3 * gi\<rparr>))))"

definition agc_estimate_gain_log :: "agc \<Rightarrow> complex \<Rightarrow> fault + agc" where
  "agc_estimate_gain_log q x =
     (let zeta = 0.1;
          q1 = q\<lparr>e := Re (x * cnj x)\<rparr>;
          q2 = q1\<lparr>e_prime := e q1 * zeta + e_prime q1 * (1 - zeta)\<rparr>
      in seq (sqrtf (e_prime q2)) (\<lambda>r.
         let q3 = q2\<lparr>e_hat := r\<rparr> in
         seq (fdiv (e_target q3) (e_hat q3)) (\<lambda>gain_ideal.
         seq (logf gain_ideal) (\<lambda>l1.
         seq (logf (g q3)) (\<lambda>l2.
         let log_gain_error = l1 - l2 in
         Inr (q3\<lparr>g := g q3 * expf (alpha q3 * log_gain_error)\<rparr>))))))"

definition agc_estimate_gain_exp :: "agc \<Rightarrow> complex \<Rightarrow> fault + agc" where
  "agc_estimate_gain_exp q x =
     (let q1 = q\<lparr>e := Re (x * cnj x)\<rparr> in
      seq (sqrtf (e q1)) (\<lambda>r.
      let q2 = q1\<lparr>e_hat := r\<rparr>;
          e_out = e_hat q2 * g q2
      in if e_out > e_target q2
         then seq (fdiv (beta q2 * (e_out - e_target q2)) e_out) (\<lambda>d.
              Inr (q2\<lparr>g := g q2 * (1 - d)\<rparr>))
         else seq (fdiv (beta q2 * (e_target q2 - e_out)) (e_target q2)) (\<lambda>d.
              Inr (q2\<lparr>g := g q2 * (1 + d)\<rparr>))))"

definition agc_limit_gain :: "agc \<Rightarrow> agc" where
  "agc_limit_gain q =
     (if g q > g_max q then q\<lparr>g := g_max q\<rparr>
      else if g q < g_min q then q\<lparr>g := g_min q\<rparr>
      else q)"

text \<open>
  \<open>agc_execute\<close> returns the object and the sample written to \<open>*_y\<close>. The \<open>default:\<close>
  branch of the \<open>switch\<close> has no counterpart: the datatype has the three tags only.
\<close>

definition agc_execute :: "agc \<Rightarrow> complex \<Rightarrow> fault + agc \<times> complex" where
  "agc_execute q x =
     (if is_locked q then Inr (q, x * of_real (g q))
      else seq (case type q of
                  LIQUID_AGC_DEFAULT \<Rightarrow> agc_estimate_gain_default q x
                | LIQUID_AGC_LOG \<Rightarrow> agc_estimate_gain_log q x
                | LIQUID_AGC_EXP \<Rightarrow> agc_estimate_gain_exp q x) (\<lambda>q1.
           let q2 = agc_limit_gain q1 in
           Inr (q2, x * of_real (g q2))))"

subsection \<open>Sequences of calls on one object\<close>

datatype agc_call =
    Reset
  | Set_target real
  | Set_gain_limits real real
  | Set_bandwidth real
  | Lock
  | Unlock
  | Execute complex

fun call :: "agc_call \<Rightarrow> agc \<Rightarrow> fault + agc" where
  "call Reset q = Inr (agc_reset q)"
| "call (Set_target t) q = agc_set_target q t"
| "call (Set_gain_limits lo hi) q = agc_set_gain_limits q lo hi"
| "call (Set_bandwidth b) q = agc_set_bandwidth q b"
| "call Lock q = Inr (agc_lock q)"
| "call Unlock q = Inr (agc_unlock q)"
| "call (Execute x) q = seq (agc_execute q x) (\<lambda>r. Inr (fst r))"

text \<open>The calls run in order; the run stops at the first one that does not return.\<close>

fun run :: "agc_call list \<Rightarrow> agc \<Rightarrow> fault + agc" where
  "run [] q = Inr q"
| "run (c # cs) q = seq (call c q) (run cs)"

subsection \<open>Concrete objects used in the examples\<close>

text \<open>
  A block of zeros and the object \<open>agc_create\<close> makes of it; that object after
  \<open>agc_set_gain_limits(q, 2, 3)\<close> and \<open>agc_lock(q)\<close>; and an object of each law with
  bandwidth 1/4.
\<close>

definition zero_block :: agc where
  "zero_block = \<lparr>type = LIQUID_AGC_DEFAULT, e_target = 0, g = 0, g_min = 0, g_max = 0,
     BT = 0, alpha = 0, beta = 0, e = 0, e_hat = 0, e_prime = 0, is_locked = False\<rparr>"

definition fresh :: agc where
  "fresh = \<lparr>type = LIQUID_AGC_LOG, e_target = 1, g = 1, g_min = 1 / 1000000, g_max = 1000000,
     BT = 0, alpha = 0, beta = 1, e = 0, e_hat = 1, e_prime = 1, is_locked = False\<rparr>"

definition limits_moved :: agc where
  "limits_moved = fresh\<lparr>g_min := 2, g_max := 3, is_locked := True\<rparr>"

definition tuned :: "liquid_agc_type \<Rightarrow> agc" where
  "tuned t = \<lparr>type = t, e_target = 1, g = 2, g_min = 1 / 1000000, g_max = 1000000,
     BT = 1 / 4, alpha = 1 / 2, beta = 1 / 2, e = 0, e_hat = 1, e_prime = 4, is_locked = False\<rparr>"

subsection \<open>Fields that are configuration\<close>

text \<open>
  \<open>same_config q q'\<close>: the law, the target, the limits, the loop-filter parameters and the
  lock are the same in \<open>q\<close> and \<open>q'\<close>.
\<close>

definition same_config :: "agc \<Rightarrow> agc \<Rightarrow> bool" where
  "same_config q q' =
     (type q' = type q \<and> e_target q' = e_target q \<and> g_min q' = g_min q \<and>
      g_max q' = g_max q \<and> BT q' = BT q \<and> alpha q' = alpha q \<and> beta q' = beta q \<and>
      is_locked q' = is_locked q)"

section \<open>The same code over IEEE values\<close>

subsection \<open>Values and operations\<close>

text \<open>
  \<open>flt_of r\<close> is what a real result \<open>r\<close> becomes: an infinity from
  \<open>(2 - 1 / 2 ^ 24) * 2 ^ 127\<close> on (halfway between the largest float and \<open>2 ^ 128\<close>),
  zero up to \<open>1 / 2 ^ 150\<close> (half the smallest subnormal), and \<open>r\<close> itself otherwise. The
  operations follow IEC 60559 on the infinities and NaN; a zero divisor is read as \<open>+0\<close>.
\<close>

datatype flt = Fin real | PInf | NInf | NaN

definition flt_of :: "real \<Rightarrow> flt" where
  "flt_of r =
     (if r \<ge> (2 - 1 / 2 ^ 24) * 2 ^ 127 then PInf
      else if r \<le> - ((2 - 1 / 2 ^ 24) * 2 ^ 127) then NInf
      else if \<bar>r\<bar> \<le> 1 / 2 ^ 150 then Fin 0
      else Fin r)"

fun fl_neg :: "flt \<Rightarrow> flt" where
  "fl_neg (Fin a) = Fin (- a)"
| "fl_neg PInf = NInf"
| "fl_neg NInf = PInf"
| "fl_neg NaN = NaN"

fun fl_add :: "flt \<Rightarrow> flt \<Rightarrow> flt" where
  "fl_add NaN b = NaN"
| "fl_add a NaN = NaN"
| "fl_add (Fin a) (Fin b) = flt_of (a + b)"
| "fl_add PInf NInf = NaN"
| "fl_add NInf PInf = NaN"
| "fl_add PInf b = PInf"
| "fl_add a PInf = PInf"
| "fl_add NInf b = NInf"
| "fl_add a NInf = NInf"

definition fl_sub :: "flt \<Rightarrow> flt \<Rightarrow> flt" where
  "fl_sub a b = fl_add a (fl_neg b)"

fun fl_mul :: "flt \<Rightarrow> flt \<Rightarrow> flt" where
  "fl_mul NaN b = NaN"
| "fl_mul a NaN = NaN"
| "fl_mul (Fin a) (Fin b) = flt_of (a * b)"
| "fl_mul (Fin a) PInf = (if a = 0 then NaN else if a > 0 then PInf else NInf)"
| "fl_mul (Fin a) NInf = (if a = 0 then NaN else if a > 0 then NInf else PInf)"
| "fl_mul PInf (Fin b) = (if b = 0 then NaN else if b > 0 then PInf else NInf)"
| "fl_mul NInf (Fin b) = (if b = 0 then NaN else if b > 0 then NInf else PInf)"
| "fl_mul PInf PInf = PInf"
| "fl_mul PInf NInf = NInf"
| "fl_mul NInf PInf = NInf"
| "fl_mul NInf NInf = PInf"

fun fl_div :: "flt \<Rightarrow> flt \<Rightarrow> flt" where
  "fl_div NaN b = NaN"
| "fl_div a NaN = NaN"
| "fl_div (Fin a) (Fin b) =
     (if b = 0 then (if a = 0 then NaN else if a > 0 then PInf else NInf)
      else flt_of (a / b))"
| "fl_div (Fin a) PInf = Fin 0"
| "fl_div (Fin a) NInf = Fin 0"
| "fl_div PInf (Fin b) = (if b < 0 then NInf else PInf)"
| "fl_div NInf (Fin b) = (if b < 0 then PInf else NInf)"
| "fl_div PInf PInf = NaN"
| "fl_div PInf NInf = NaN"
| "fl_div NInf PInf = NaN"
| "fl_div NInf NInf = NaN"

fun fl_sqrt :: "flt \<Rightarrow> flt" where
  "fl_sqrt (Fin a) = (if a < 0 then NaN else Fin (sqrt a))"
| "fl_sqrt PInf = PInf"
| "fl_sqrt NInf = NaN"
| "fl_sqrt NaN = NaN"

fun fl_log :: "flt \<Rightarrow> flt" where
  "fl_log (Fin a) = (if a < 0 then NaN else if a = 0 then NInf else Fin (ln a))"
| "fl_log PInf = PInf"
| "fl_log NInf = NaN"
| "fl_log NaN = NaN"

fun fl_exp :: "flt \<Rightarrow> flt" where
  "fl_exp (Fin a) = flt_of (exp a)"
| "fl_exp PInf = PInf"
| "fl_exp NInf = Fin 0"
| "fl_exp NaN = NaN"

fun fl_lt :: "flt \<Rightarrow> flt \<Rightarrow> bool" where
  "fl_lt NaN b = False"
| "fl_lt a NaN = False"
| "fl_lt (Fin a) (Fin b) = (a < b)"
| "fl_lt PInf b = False"
| "fl_lt a NInf = False"
| "fl_lt a PInf = True"
| "fl_lt NInf b = True"

definition fl_gt :: "flt \<Rightarrow> flt \<Rightarrow> bool" where
  "fl_gt a b = fl_lt b a"

fun fl_le :: "flt \<Rightarrow> flt \<Rightarrow> bool" where
  "fl_le NaN b = False"
| "fl_le a NaN = False"
| "fl_le a b = (\<not> fl_lt b a)"

subsection \<open>The object and the calls\<close>

text \<open>
  \<open>struct agc_s\<close> with \<open>T\<close> fields holding IEEE values, and \<open>to_fl\<close>, which reads an object
  of the first reading as one of these. A sample \<open>x\<close> is finite; \<open>crealf(x * conj(x))\<close> is
  \<open>flt_of (Re (x * cnj x))\<close>, and \<open>x * g\<close> multiplies each part of \<open>x\<close> by \<open>g\<close>. On \<open>exit(-1)\<close>
  \<open>agc_set_gain_limits_fl\<close> returns \<open>Inl\<close> of the object as it was.
\<close>

record agc_fl =
  type_fl :: liquid_agc_type
  e_target_fl :: flt
  g_fl :: flt
  g_min_fl :: flt
  g_max_fl :: flt
  BT_fl :: flt
  alpha_fl :: flt
  beta_fl :: flt
  e_fl :: flt
  e_hat_fl :: flt
  e_prime_fl :: flt
  is_locked_fl :: bool

definition to_fl :: "agc \<Rightarrow> agc_fl" where
  "to_fl q = \<lparr>type_fl = type q, e_target_fl = Fin (e_target q), g_fl = Fin (g q),
     g_min_fl = Fin (g_min q), g_max_fl = Fin (g_max q), BT_fl = Fin (BT q),
     alpha_fl = Fin (alpha q), beta_fl = Fin (beta q), e_fl = Fin (e q),
     e_hat_fl = Fin (e_hat q), e_prime_fl = Fin (e_prime q), is_locked_fl = is_locked q\<rparr>"

definition agc_set_gain_limits_fl :: "agc_fl \<Rightarrow> flt \<Rightarrow> flt \<Rightarrow> agc_fl + agc_fl" where
  "agc_set_gain_limits_fl q g_min' g_max' =
     (if fl_gt g_min' g_max' then Inl q
      else Inr (q\<lparr>g_min_fl := g_min', g_max_fl := g_max'\<rparr>))"

definition agc_estimate_gain_default_fl :: "agc_fl \<Rightarrow> complex \<Rightarrow> agc_fl" where
  "agc_estimate_gain_default_fl q x =
     (let zeta = Fin 0.1;
          q1 = q\<lparr>e_fl := flt_of (Re (x * cnj x))\<rparr>;
          q2 = q1\<lparr>e_prime_fl := fl_add (fl_mul (e_fl q1) zeta)
                                   (fl_mul (e_prime_fl q1) (fl_sub (Fin 1) zeta))\<rparr>;
          q3 = q2\<lparr>e_hat_fl := fl_sqrt (e_prime_fl q2)\<rparr>;
          gi = fl_div (e_target_fl q3) (e_hat_fl q3)
      in q3\<lparr>g_fl := fl_add (fl_mul (beta_fl q3) (g_fl q3)) (fl_mul (alpha_fl q3) gi)\<rparr>)"

definition agc_estimate_gain_log_fl :: "agc_fl \<Rightarrow> complex \<Rightarrow> agc_fl" where
  "agc_estimate_gain_log_fl q x =
     (let zeta = Fin 0.1;
          q1 = q\<lparr>e_fl := flt_of (Re (x * cnj x))\<rparr>;
          q2 = q1\<lparr>e_prime_fl := fl_add (fl_mul (e_fl q1) zeta)
                                   (fl_mul (e_prime_fl q1) (fl_sub (Fin 1) zeta))\<rparr>;
          q3 = q2\<lparr>e_hat_fl := fl_sqrt (e_prime_fl q2)\<rparr>;
          gain_ideal = fl_div (e_target_fl q3) (e_hat_fl q3);
          log_gain_error = fl_sub (fl_log gain_ideal) (fl_log (g_fl q3))
      in q3\<lparr>g_fl := fl_mul (g_fl q3) (fl_exp (fl_mul (alpha_fl q3) log_gain_error))\<rparr>)"

definition agc_estimate_gain_exp_fl :: "agc_fl \<Rightarrow> complex \<Rightarrow> agc_fl" where
  "agc_estimate_gain_exp_fl q x =
     (let q1 = q\<lparr>e_fl := flt_of (Re (x * cnj x))\<rparr>;
          q2 = q1\<lparr>e_hat_fl := fl_sqrt (e_fl q1)\<rparr>;
          e_out = fl_mul (e_hat_fl q2) (g_fl q2)
      in if fl_gt e_out (e_target_fl q2)
         then q2\<lparr>g_fl := fl_mul (g_fl q2)
                (fl_sub (Fin 1)
                   (fl_div (fl_mul (beta_fl q2) (fl_sub e_out (e_target_fl q2))) e_out))\<rparr>
         else q2\<lparr>g_fl := fl_mul (g_fl q2)
                (fl_add (Fin 1)
                   (fl_div (fl_mul (beta_fl q2) (fl_sub (e_target_fl q2) e_out))
                      (e_target_fl q2)))\<rparr>)"

definition agc_limit_gain_fl :: "agc_fl \<Rightarrow> agc_fl" where
  "agc_limit_gain_fl q =
     (if fl_gt (g_fl q) (g_max_fl q) then q\<lparr>g_fl := g_max_fl q\<rparr>
      else if fl_lt (g_fl q) (g_min_fl q) then q\<lparr>g_fl := g_min_fl q\<rparr>
      else q)"

definition scale_fl :: "complex \<Rightarrow> flt \<Rightarrow> flt \<times> flt" where
  "scale_fl x v = (fl_mul (Fin (Re x)) v, fl_mul (Fin (Im x)) v)"

definition agc_execute_fl :: "agc_fl \<Rightarrow> complex \<Rightarrow> agc_fl \<times> (flt \<times> flt)" where
  "agc_execute_fl q x =
     (if is_locked_fl q then (q, scale_fl x (g_fl q))
      else let q1 = (case type_fl q of
                       LIQUID_AGC_DEFAULT \<Rightarrow> agc_estimate_gain_default_fl q x
                     | LIQUID_AGC_LOG \<Rightarrow> agc_estimate_gain_log_fl q x
                     | LIQUID_AGC_EXP \<Rightarrow> agc_estimate_gain_exp_fl q x);
               q2 = agc_limit_gain_fl q1
           in (q2, scale_fl x (g_fl q2)))"

text \<open>The created object after \<open>agc_execute\<close> on the sample \<open>2 * 10 ^ 19\<close>.\<close>

definition overflowed :: agc_fl where
  "overflowed = (to_fl fresh)\<lparr>e_fl := PInf, e_prime_fl := PInf, e_hat_fl := PInf, g_fl := NaN\<rparr>"

section \<open>Auxiliary facts\<close>

lemma seq_Inr_iff: "(seq m k = Inr v) = (\<exists>u. m = Inr u \<and> k u = Inr v)"
  by (cases m) simp_all

lemma seq_Inl_iff: "(seq m k = Inl f) = (m = Inl f \<or> (\<exists>u. m = Inr u \<and> k u = Inl f))"
  by (cases m) simp_all

lemma energy_nonneg: "0 \<le> Re (x * cnj x)"
  by simp

lemma agc_create_zero_block: "agc_create zero_block = Inr fresh"
  by (simp add: agc_create_def agc_set_target_def agc_set_bandwidth_def sqrtf_def
      zero_block_def fresh_def)

subsection \<open>What the limiter and the update laws leave alone\<close>

lemma agc_estimate_gain_default_frame:
  "agc_estimate_gain_default q x = Inr q1 \<Longrightarrow> same_config q q1"
  by (auto simp: agc_estimate_gain_default_def sqrtf_def fdiv_def Let_def same_config_def
      split: if_splits)

lemma agc_estimate_gain_log_frame:
  "agc_estimate_gain_log q x = Inr q1 \<Longrightarrow> same_config q q1"
  by (auto simp: agc_estimate_gain_log_def sqrtf_def fdiv_def logf_def Let_def
      same_config_def split: if_splits)

lemma agc_estimate_gain_exp_frame:
  "agc_estimate_gain_exp q x = Inr q1 \<Longrightarrow> same_config q q1 \<and> e_prime q1 = e_prime q"
  by (auto simp: agc_estimate_gain_exp_def sqrtf_def fdiv_def Let_def same_config_def
      split: if_splits)

lemma agc_limit_gain_same_config: "same_config q (agc_limit_gain q)"
  by (simp add: agc_limit_gain_def same_config_def)

lemma same_config_trans: "same_config a b \<Longrightarrow> same_config b c \<Longrightarrow> same_config a c"
  by (simp add: same_config_def)

text \<open>
  The parts of an unlocked \<open>agc_execute\<close> that returns: the selected law, then the limiter.
\<close>

lemma agc_execute_unlocked:
  assumes "\<not> is_locked q" and "agc_execute q x = Inr (q', y)"
  obtains q1 where
    "(case type q of
        LIQUID_AGC_DEFAULT \<Rightarrow> agc_estimate_gain_default q x
      | LIQUID_AGC_LOG \<Rightarrow> agc_estimate_gain_log q x
      | LIQUID_AGC_EXP \<Rightarrow> agc_estimate_gain_exp q x) = Inr q1"
    and "q' = agc_limit_gain q1" and "y = x * of_real (g q')"
  using assms by (auto simp: agc_execute_def seq_Inr_iff Let_def)

lemma agc_execute_frame:
  assumes "agc_execute q x = Inr (q', y)"
  shows "same_config q q'"
proof (cases "is_locked q")
  case True
  with assms show ?thesis by (simp add: agc_execute_def same_config_def)
next
  case False
  from False assms obtain q1 where
    est: "(case type q of
             LIQUID_AGC_DEFAULT \<Rightarrow> agc_estimate_gain_default q x
           | LIQUID_AGC_LOG \<Rightarrow> agc_estimate_gain_log q x
           | LIQUID_AGC_EXP \<Rightarrow> agc_estimate_gain_exp q x) = Inr q1"
    and q': "q' = agc_limit_gain q1"
    by (rule agc_execute_unlocked)
  have "same_config q q1"
    using est
    by (cases "type q")
      (simp_all add: agc_estimate_gain_default_frame agc_estimate_gain_log_frame
        agc_estimate_gain_exp_frame)
  then show ?thesis
    unfolding q' by (rule same_config_trans) (rule agc_limit_gain_same_config)
qed

subsection \<open>The update laws in closed form\<close>

text \<open>
  Each law as one expression: the fault it stops at, or the object it returns. The
  smoothing line \<open>e * zeta + e_prime * (1 - zeta)\<close> is \<open>0.1 e + 0.9 e_prime\<close>.
\<close>

lemma smoothed_pos: "0 < p \<Longrightarrow> 0 < 0.1 * Re (x * cnj x) + 0.9 * (p::real)"
proof -
  assume "0 < p"
  moreover have "0 \<le> Re (x * cnj x)" by (rule energy_nonneg)
  ultimately show ?thesis by linarith
qed

lemma agc_estimate_gain_default_eq:
  "agc_estimate_gain_default q x =
     (let m = 0.1 * Re (x * cnj x) + 0.9 * e_prime q
      in if m < 0 then Inl Sqrt_domain
         else if m = 0 then Inl Div_by_zero
         else Inr (q\<lparr>e := Re (x * cnj x), e_hat := sqrt m, e_prime := m,
                     g := beta q * g q + alpha q * (e_target q / sqrt m)\<rparr>))"
proof -
  define m where "m = 0.1 * Re (x * cnj x) + 0.9 * e_prime q"
  have sm: "Re (x * cnj x) * 0.1 + e_prime q * (1 - 0.1) = m"
    by (simp add: m_def)
  have "agc_estimate_gain_default q x =
     (if m < 0 then Inl Sqrt_domain
      else if m = 0 then Inl Div_by_zero
      else Inr (q\<lparr>e := Re (x * cnj x), e_hat := sqrt m, e_prime := m,
                  g := beta q * g q + alpha q * (e_target q / sqrt m)\<rparr>))"
    using sm
    by (simp add: agc_estimate_gain_default_def Let_def sqrtf_def fdiv_def)
  then show ?thesis
    unfolding Let_def m_def .
qed

lemma agc_estimate_gain_log_eq:
  "agc_estimate_gain_log q x =
     (let m = 0.1 * Re (x * cnj x) + 0.9 * e_prime q
      in if m < 0 then Inl Sqrt_domain
         else if m = 0 then Inl Div_by_zero
         else if e_target q \<le> 0 \<or> g q \<le> 0 then Inl Log_domain
         else Inr (q\<lparr>e := Re (x * cnj x), e_hat := sqrt m, e_prime := m,
                     g := g q * exp (alpha q * (ln (e_target q / sqrt m) - ln (g q)))\<rparr>))"
proof -
  define m where "m = 0.1 * Re (x * cnj x) + 0.9 * e_prime q"
  have sm: "Re (x * cnj x) * 0.1 + e_prime q * (1 - 0.1) = m"
    by (simp add: m_def)
  consider "m < 0" | "m = 0" | "0 < m" by linarith
  then have "agc_estimate_gain_log q x =
     (if m < 0 then Inl Sqrt_domain
      else if m = 0 then Inl Div_by_zero
      else if e_target q \<le> 0 \<or> g q \<le> 0 then Inl Log_domain
      else Inr (q\<lparr>e := Re (x * cnj x), e_hat := sqrt m, e_prime := m,
                  g := g q * exp (alpha q * (ln (e_target q / sqrt m) - ln (g q)))\<rparr>))"
  proof cases
    case 1
    with sm show ?thesis
      by (simp add: agc_estimate_gain_log_def Let_def sqrtf_def)
  next
    case 2
    with sm show ?thesis
      by (simp add: agc_estimate_gain_log_def Let_def sqrtf_def fdiv_def)
  next
    case 3
    then have "0 < sqrt m" by simp
    then have "(e_target q / sqrt m \<le> 0) = (e_target q \<le> 0)"
      by (simp add: divide_le_0_iff)
    with 3 sm show ?thesis
      by (simp add: agc_estimate_gain_log_def Let_def sqrtf_def fdiv_def logf_def expf_def)
  qed
  then show ?thesis
    unfolding Let_def m_def .
qed

lemma agc_estimate_gain_exp_eq:
  "agc_estimate_gain_exp q x =
     (let e_out = sqrt (Re (x * cnj x)) * g q
      in if e_out > e_target q
         then (if e_out = 0 then Inl Div_by_zero
               else Inr (q\<lparr>e := Re (x * cnj x), e_hat := sqrt (Re (x * cnj x)),
                           g := g q * (1 - beta q * (e_out - e_target q) / e_out)\<rparr>))
         else (if e_target q = 0 then Inl Div_by_zero
               else Inr (q\<lparr>e := Re (x * cnj x), e_hat := sqrt (Re (x * cnj x)),
                           g := g q * (1 + beta q * (e_target q - e_out) / e_target q)\<rparr>)))"
proof -
  have nn: "\<not> Re (x * cnj x) < 0"
    using energy_nonneg [of x] by linarith
  show ?thesis
    unfolding agc_estimate_gain_exp_def Let_def sqrtf_def fdiv_def
    using nn by simp
qed

lemma agc_execute_no_division_by_zero:
  assumes "0 < e_prime q" and "0 < e_target q"
  shows "agc_execute q x \<noteq> Inl Div_by_zero \<and> agc_execute q x \<noteq> Inl Sqrt_domain"
proof (cases "is_locked q")
  case True
  then show ?thesis by (simp add: agc_execute_def)
next
  case False
  have m: "0 < 0.1 * Re (x * cnj x) + 0.9 * e_prime q"
    using assms(1) by (rule smoothed_pos)
  show ?thesis
  proof (cases "type q")
    case LIQUID_AGC_DEFAULT
    with False m show ?thesis
      by (simp add: agc_execute_def agc_estimate_gain_default_eq Let_def)
  next
    case LIQUID_AGC_LOG
    with False m show ?thesis
      by (simp add: agc_execute_def agc_estimate_gain_log_eq Let_def)
  next
    case LIQUID_AGC_EXP
    with False assms(2) show ?thesis
      by (auto simp: agc_execute_def agc_estimate_gain_exp_eq Let_def)
  qed
qed

lemma agc_execute_e_prime:
  assumes "agc_execute q x = Inr (q', y)" and "0 < e_prime q"
  shows "0 < e_prime q'"
proof (cases "is_locked q")
  case True
  with assms show ?thesis by (simp add: agc_execute_def)
next
  case False
  have m: "0 < 0.1 * Re (x * cnj x) + 0.9 * e_prime q"
    using assms(2) by (rule smoothed_pos)
  from False assms(1) obtain q1 where
    est: "(case type q of
             LIQUID_AGC_DEFAULT \<Rightarrow> agc_estimate_gain_default q x
           | LIQUID_AGC_LOG \<Rightarrow> agc_estimate_gain_log q x
           | LIQUID_AGC_EXP \<Rightarrow> agc_estimate_gain_exp q x) = Inr q1"
    and q': "q' = agc_limit_gain q1"
    by (rule agc_execute_unlocked)
  have "0 < e_prime q1"
  proof (cases "type q")
    case LIQUID_AGC_DEFAULT
    with est m show ?thesis
      by (auto simp: agc_estimate_gain_default_eq Let_def split: if_splits)
  next
    case LIQUID_AGC_LOG
    with est m show ?thesis
      by (auto simp: agc_estimate_gain_log_eq Let_def split: if_splits)
  next
    case LIQUID_AGC_EXP
    with est assms(2) show ?thesis
      by (simp add: agc_estimate_gain_exp_frame)
  qed
  then show ?thesis
    unfolding q' by (simp add: agc_limit_gain_def)
qed

lemma call_keeps_positive:
  assumes "call c q = Inr q'" and "0 < e_prime q" and "0 < e_target q"
  shows "0 < e_prime q' \<and> 0 < e_target q'"
proof (cases c)
  case Reset
  with assms show ?thesis by (auto simp: agc_reset_def agc_unlock_def)
next
  case (Set_target t)
  with assms show ?thesis by (auto simp: agc_set_target_def split: if_splits)
next
  case (Set_gain_limits lo hi)
  with assms show ?thesis by (auto simp: agc_set_gain_limits_def split: if_splits)
next
  case (Set_bandwidth b)
  with assms show ?thesis
    by (auto simp: agc_set_bandwidth_def sqrtf_def Let_def split: if_splits)
next
  case Lock
  with assms show ?thesis by (auto simp: agc_lock_def)
next
  case Unlock
  with assms show ?thesis by (auto simp: agc_unlock_def)
next
  case (Execute x)
  with assms(1) obtain y where ex: "agc_execute q x = Inr (q', y)"
    by (auto simp: seq_Inr_iff)
  from agc_execute_e_prime [OF ex assms(2)] agc_execute_frame [OF ex] assms(3)
  show ?thesis by (simp add: same_config_def)
qed

lemma run_keeps_positive:
  "run cs q = Inr q' \<Longrightarrow> 0 < e_prime q \<Longrightarrow> 0 < e_target q \<Longrightarrow>
     0 < e_prime q' \<and> 0 < e_target q'"
proof (induction cs arbitrary: q)
  case Nil
  then show ?case by simp
next
  case (Cons c cs)
  from Cons.prems(1) obtain q1 where c: "call c q = Inr q1" and r: "run cs q1 = Inr q'"
    by (auto simp: seq_Inr_iff)
  from call_keeps_positive [OF c Cons.prems(2,3)] have "0 < e_prime q1" "0 < e_target q1"
    by simp_all
  with r show ?case by (rule Cons.IH)
qed

lemma agc_create_eq:
  "agc_create raw = Inr (raw\<lparr>type := LIQUID_AGC_LOG, e_target := 1, g := 1,
     g_min := 1 / 1000000, g_max := 1000000, BT := 0, alpha := 0, beta := 1,
     e_hat := 1, e_prime := 1, is_locked := False\<rparr>)"
  by (simp add: agc_create_def agc_set_target_def agc_set_bandwidth_def sqrtf_def)

subsection \<open>The limiter over IEEE values\<close>

text \<open>
  With ordered limits the limiter leaves a gain between them, unless the gain is NaN:
  both of its tests are false on NaN. The laws do not write the limits. On finite
  values the limiter and the limit setter are those of the first reading.
\<close>

lemma agc_limit_gain_fl_bounds:
  assumes "fl_le (g_min_fl q) (g_max_fl q)"
  shows "g_fl (agc_limit_gain_fl q) = NaN \<or>
         (fl_le (g_min_fl q) (g_fl (agc_limit_gain_fl q)) \<and>
          fl_le (g_fl (agc_limit_gain_fl q)) (g_max_fl q))"
  using assms
  by (cases "g_fl q"; cases "g_min_fl q"; cases "g_max_fl q")
     (auto simp: agc_limit_gain_fl_def fl_gt_def)

lemma agc_limit_gain_fl_limits:
  "g_min_fl (agc_limit_gain_fl q) = g_min_fl q \<and> g_max_fl (agc_limit_gain_fl q) = g_max_fl q"
  by (simp add: agc_limit_gain_fl_def)

lemma law_fl_limits:
  "g_min_fl (agc_estimate_gain_default_fl q x) = g_min_fl q \<and>
   g_max_fl (agc_estimate_gain_default_fl q x) = g_max_fl q \<and>
   g_min_fl (agc_estimate_gain_log_fl q x) = g_min_fl q \<and>
   g_max_fl (agc_estimate_gain_log_fl q x) = g_max_fl q \<and>
   g_min_fl (agc_estimate_gain_exp_fl q x) = g_min_fl q \<and>
   g_max_fl (agc_estimate_gain_exp_fl q x) = g_max_fl q"
  by (simp add: agc_estimate_gain_default_fl_def agc_estimate_gain_log_fl_def
      agc_estimate_gain_exp_fl_def Let_def)

lemma agc_limit_gain_fl_to_fl: "agc_limit_gain_fl (to_fl q) = to_fl (agc_limit_gain q)"
  by (simp add: agc_limit_gain_fl_def agc_limit_gain_def to_fl_def fl_gt_def)

lemma agc_set_gain_limits_fl_to_fl:
  "agc_set_gain_limits_fl (to_fl q) (Fin lo) (Fin hi) =
     (if lo > hi then Inl (to_fl q) else Inr (to_fl (q\<lparr>g_min := lo, g_max := hi\<rparr>)))"
  by (simp add: agc_set_gain_limits_fl_def to_fl_def fl_gt_def)

section \<open>The gain limits\<close>

text \<open>
  C1 reads: after any call of \<open>agc_execute\<close>, locked or not, the gain lies between
  \<open>g_min\<close> and \<open>g_max\<close>. This fails for a locked object, whose call returns before the
  limiter: the object made by \<open>agc_create\<close>, then given the limits 2 and 3 and locked,
  keeps the gain 1.
\<close>

theorem agc_execute_locked_not_limited:
  "run [Set_gain_limits 2 3, Lock] fresh = Inr limits_moved \<and>
   g_min limits_moved \<le> g_max limits_moved \<and>
   agc_execute limits_moved 0 = Inr (limits_moved, 0) \<and>
   \<not> (g_min limits_moved \<le> g limits_moved \<and> g limits_moved \<le> g_max limits_moved)"
  by (simp add: limits_moved_def fresh_def agc_set_gain_limits_def agc_lock_def
      agc_execute_def)

text \<open>
  C1 for unlocked objects, over IEEE values: after \<open>agc_execute\<close> on an unlocked object
  with \<open>g_min \<le> g_max\<close> the limits are the ones it had, and the gain is NaN or lies between
  them; a locked object returns \<open>x * g\<close> and is left as it was, gain included.
\<close>

theorem agc_execute_gain_limited:
  "(\<not> is_locked_fl q \<and> fl_le (g_min_fl q) (g_max_fl q) \<and> agc_execute_fl q x = (q', y) \<longrightarrow>
      g_min_fl q' = g_min_fl q \<and> g_max_fl q' = g_max_fl q \<and>
      (g_fl q' = NaN \<or> (fl_le (g_min_fl q') (g_fl q') \<and> fl_le (g_fl q') (g_max_fl q')))) \<and>
   (is_locked_fl q \<longrightarrow> agc_execute_fl q x = (q, scale_fl x (g_fl q)))"
proof (intro conjI impI)
  assume a: "\<not> is_locked_fl q \<and> fl_le (g_min_fl q) (g_max_fl q) \<and> agc_execute_fl q x = (q', y)"
  define q1 where "q1 = (case type_fl q of
                       LIQUID_AGC_DEFAULT \<Rightarrow> agc_estimate_gain_default_fl q x
                     | LIQUID_AGC_LOG \<Rightarrow> agc_estimate_gain_log_fl q x
                     | LIQUID_AGC_EXP \<Rightarrow> agc_estimate_gain_exp_fl q x)"
  from a have "agc_execute_fl q x = (agc_limit_gain_fl q1, scale_fl x (g_fl (agc_limit_gain_fl q1)))"
    unfolding q1_def by (simp add: agc_execute_fl_def Let_def)
  with a have q': "q' = agc_limit_gain_fl q1"
    by simp
  have lim1: "g_min_fl q1 = g_min_fl q" "g_max_fl q1 = g_max_fl q"
    unfolding q1_def by (cases "type_fl q"; simp add: law_fl_limits)+
  with agc_limit_gain_fl_limits [of q1]
  show "g_min_fl q' = g_min_fl q" "g_max_fl q' = g_max_fl q"
    by (simp_all add: q')
  from a lim1 have "fl_le (g_min_fl q1) (g_max_fl q1)" by simp
  from agc_limit_gain_fl_bounds [OF this] agc_limit_gain_fl_limits [of q1]
  show "g_fl q' = NaN \<or> (fl_le (g_min_fl q') (g_fl q') \<and> fl_le (g_fl q') (g_max_fl q'))"
    by (simp add: q')
next
  assume "is_locked_fl q"
  then show "agc_execute_fl q x = (q, scale_fl x (g_fl q))"
    by (simp add: agc_execute_fl_def)
qed

text \<open>
  At the unlocked object with limits 2 and 3 and gain 1 (the gain becomes 2); at the
  created object and the sample \<open>2 * 10 ^ 19\<close>, where \<open>e\<close>, \<open>e_prime\<close> and \<open>e_hat\<close> overflow, the
  ideal gain is 0, its logarithm is the negative infinity, \<open>alpha = 0\<close> times it is NaN
  and the gain NaN passes the limiter; and at the locked object.
\<close>

theorem agc_execute_gain_limited_witness:
  "\<not> is_locked_fl (to_fl (agc_unlock limits_moved)) \<and>
   fl_le (g_min_fl (to_fl (agc_unlock limits_moved))) (g_max_fl (to_fl (agc_unlock limits_moved))) \<and>
   agc_execute_fl (to_fl (agc_unlock limits_moved)) 1
     = (to_fl ((agc_unlock limits_moved)\<lparr>e := 1, g := 2\<rparr>), (Fin 2, Fin 0)) \<and>
   fl_le (Fin 2) (g_fl (to_fl ((agc_unlock limits_moved)\<lparr>e := 1, g := 2\<rparr>))) \<and>
   fl_le (g_fl (to_fl ((agc_unlock limits_moved)\<lparr>e := 1, g := 2\<rparr>))) (Fin 3) \<and>
   \<not> is_locked_fl (to_fl fresh) \<and>
   fl_le (g_min_fl (to_fl fresh)) (g_max_fl (to_fl fresh)) \<and>
   agc_execute_fl (to_fl fresh) 20000000000000000000 = (overflowed, (NaN, NaN)) \<and>
   g_fl overflowed = NaN \<and>
   is_locked_fl (to_fl limits_moved) \<and>
   agc_execute_fl (to_fl limits_moved) 1 = (to_fl limits_moved, (Fin 1, Fin 0))"
proof -
  have ex: "agc_execute_fl (to_fl (agc_unlock limits_moved)) 1
     = (to_fl ((agc_unlock limits_moved)\<lparr>e := 1, g := 2\<rparr>), (Fin 2, Fin 0))"
    by (simp add: agc_execute_fl_def agc_estimate_gain_log_fl_def agc_limit_gain_fl_def
        scale_fl_def to_fl_def limits_moved_def fresh_def agc_unlock_def fl_sub_def
        fl_gt_def flt_of_def Let_def)
  have nan: "agc_execute_fl (to_fl fresh) 20000000000000000000 = (overflowed, (NaN, NaN))"
    by (simp add: agc_execute_fl_def agc_estimate_gain_log_fl_def agc_limit_gain_fl_def
        scale_fl_def to_fl_def fresh_def fl_sub_def fl_gt_def flt_of_def overflowed_def
        Let_def)
  have pre: "\<not> is_locked_fl (to_fl (agc_unlock limits_moved))"
    "fl_le (g_min_fl (to_fl (agc_unlock limits_moved)))
       (g_max_fl (to_fl (agc_unlock limits_moved)))"
    "\<not> is_locked_fl (to_fl fresh)"
    "fl_le (g_min_fl (to_fl fresh)) (g_max_fl (to_fl fresh))"
    "is_locked_fl (to_fl limits_moved)"
    by (simp_all add: to_fl_def limits_moved_def fresh_def agc_unlock_def)
  from agc_execute_gain_limited
         [of "to_fl (agc_unlock limits_moved)" 1
             "to_fl ((agc_unlock limits_moved)\<lparr>e := 1, g := 2\<rparr>)" "(Fin 2, Fin 0)"]
       agc_execute_gain_limited
         [of "to_fl fresh" 20000000000000000000 overflowed "(NaN, NaN)"]
       agc_execute_gain_limited [of "to_fl limits_moved" 1]
       pre ex nan
  show ?thesis
    by (simp add: to_fl_def limits_moved_def fresh_def agc_unlock_def overflowed_def
        scale_fl_def flt_of_def)
qed

section \<open>The logarithmic law\<close>

text \<open>
  C2: an unlocked object of type \<open>LIQUID_AGC_LOG\<close> takes \<open>e = Re (x * cnj x)\<close>,
  \<open>e_prime = 0.1 e + 0.9 e_prime\<close>, \<open>e_hat = sqrt e_prime\<close>, and multiplies its gain by
  \<open>exp (alpha * (ln (e_target / e_hat) - ln g))\<close>; the gain is then limited and the output
  is \<open>x\<close> times the limited gain. The three tests in front say when this arithmetic stays
  in the reals.
\<close>

theorem agc_execute_log:
  assumes "\<not> is_locked q" and "type q = LIQUID_AGC_LOG"
  shows "agc_execute q x =
     (let e' = Re (x * cnj x);
          e_prime' = 0.1 * e' + 0.9 * e_prime q;
          e_hat' = sqrt e_prime';
          g_ideal = e_target q / e_hat';
          gain = g q * exp (alpha q * (ln g_ideal - ln (g q)));
          gain' = (if gain > g_max q then g_max q else if gain < g_min q then g_min q else gain)
      in if e_prime' < 0 then Inl Sqrt_domain
         else if e_prime' = 0 then Inl Div_by_zero
         else if e_target q \<le> 0 \<or> g q \<le> 0 then Inl Log_domain
         else Inr (q\<lparr>e := e', e_hat := e_hat', e_prime := e_prime', g := gain'\<rparr>,
                   x * of_real gain'))"
  using assms unfolding agc_execute_def agc_estimate_gain_log_eq Let_def
  by (simp add: agc_limit_gain_def)

text \<open>
  At bandwidth 1/4 (\<open>alpha = 1/2\<close>), gain 2, \<open>e_prime = 4\<close> and \<open>x = 2\<close>: the smoothed energy
  stays 4, the ideal gain is 1/2 and the gain becomes \<open>2 * exp ((ln (1/2) - ln 2) / 2) = 1\<close>.
\<close>

theorem agc_execute_log_witness:
  "\<not> is_locked (tuned LIQUID_AGC_LOG) \<and> type (tuned LIQUID_AGC_LOG) = LIQUID_AGC_LOG \<and>
   agc_execute (tuned LIQUID_AGC_LOG) 2 =
     Inr ((tuned LIQUID_AGC_LOG)\<lparr>e := 4, e_hat := 2, e_prime := 4, g := 1\<rparr>, 2)"
proof -
  have h: "\<not> is_locked (tuned LIQUID_AGC_LOG)" "type (tuned LIQUID_AGC_LOG) = LIQUID_AGC_LOG"
    by (simp_all add: tuned_def)
  have "ln (1 / 2 :: real) = - ln 2"
    by (simp add: ln_div)
  then have "(ln (1 / 2) - ln 2) / 2 = - ln (2 :: real)"
    by simp
  moreover have "exp (- ln 2) = (1 / 2 :: real)"
    by (simp add: exp_minus inverse_eq_divide)
  ultimately have "exp ((ln (1 / 2) - ln 2) / 2) = (1 / 2 :: real)"
    by (simp only:)
  with agc_execute_log [OF h, of 2] h show ?thesis
    by (simp add: tuned_def Let_def)
qed

section \<open>The default law\<close>

text \<open>
  C3: an unlocked object of type \<open>LIQUID_AGC_DEFAULT\<close> smooths the energy in the same
  way and sets its gain to \<open>beta * g + alpha * (e_target / e_hat)\<close>, which is then limited.
\<close>

theorem agc_execute_default:
  assumes "\<not> is_locked q" and "type q = LIQUID_AGC_DEFAULT"
  shows "agc_execute q x =
     (let e' = Re (x * cnj x);
          e_prime' = 0.1 * e' + 0.9 * e_prime q;
          e_hat' = sqrt e_prime';
          gain = beta q * g q + alpha q * (e_target q / e_hat');
          gain' = (if gain > g_max q then g_max q else if gain < g_min q then g_min q else gain)
      in if e_prime' < 0 then Inl Sqrt_domain
         else if e_prime' = 0 then Inl Div_by_zero
         else Inr (q\<lparr>e := e', e_hat := e_hat', e_prime := e_prime', g := gain'\<rparr>,
                   x * of_real gain'))"
  using assms unfolding agc_execute_def agc_estimate_gain_default_eq Let_def
  by (simp add: agc_limit_gain_def)

text \<open>
  At \<open>alpha = beta = 1/2\<close>, gain 2, \<open>e_prime = 4\<close> and \<open>x = 2\<close>: the ideal gain is 1/2 and
  the gain becomes \<open>1/2 * 2 + 1/2 * 1/2 = 5/4\<close>.
\<close>

theorem agc_execute_default_witness:
  "\<not> is_locked (tuned LIQUID_AGC_DEFAULT) \<and>
   type (tuned LIQUID_AGC_DEFAULT) = LIQUID_AGC_DEFAULT \<and>
   agc_execute (tuned LIQUID_AGC_DEFAULT) 2 =
     Inr ((tuned LIQUID_AGC_DEFAULT)\<lparr>e := 4, e_hat := 2, e_prime := 4, g := 5 / 4\<rparr>, 5 / 2)"
proof -
  have h: "\<not> is_locked (tuned LIQUID_AGC_DEFAULT)"
    "type (tuned LIQUID_AGC_DEFAULT) = LIQUID_AGC_DEFAULT"
    by (simp_all add: tuned_def)
  from agc_execute_default [OF h, of 2] h show ?thesis
    by (simp add: tuned_def Let_def)
qed

section \<open>The exponential law\<close>

text \<open>
  C4: an unlocked object of type \<open>LIQUID_AGC_EXP\<close> takes \<open>e = Re (x * cnj x)\<close> and
  \<open>e_hat = sqrt e\<close> with no smoothing, forms \<open>e_out = e_hat * g\<close>, and multiplies its gain
  by \<open>1 - beta * (e_out - e_target) / e_out\<close> when \<open>e_out > e_target\<close> and by
  \<open>1 + beta * (e_target - e_out) / e_target\<close> otherwise; \<open>e_prime\<close> is not written. The
  first part is \<open>agc_execute\<close>, which limits that gain; the second is the gain the law
  itself leaves.
\<close>

theorem agc_execute_exp:
  assumes "\<not> is_locked q" and "type q = LIQUID_AGC_EXP"
  shows "agc_execute q x =
     (let e' = Re (x * cnj x);
          e_hat' = sqrt e';
          e_out = e_hat' * g q;
          gain = (if e_out > e_target q
                  then g q * (1 - beta q * (e_out - e_target q) / e_out)
                  else g q * (1 + beta q * (e_target q - e_out) / e_target q));
          gain' = (if gain > g_max q then g_max q else if gain < g_min q then g_min q else gain)
      in if e_out > e_target q \<and> e_out = 0 then Inl Div_by_zero
         else if e_out \<le> e_target q \<and> e_target q = 0 then Inl Div_by_zero
         else Inr (q\<lparr>e := e', e_hat := e_hat', g := gain'\<rparr>, x * of_real gain')) \<and>
     (agc_estimate_gain_exp q x = Inr q1 \<longrightarrow>
        e_prime q1 = e_prime q \<and>
        g q1 = (let e_out = sqrt (Re (x * cnj x)) * g q
                in if e_out > e_target q
                   then g q * (1 - beta q * (e_out - e_target q) / e_out)
                   else g q * (1 + beta q * (e_target q - e_out) / e_target q)))"
proof (intro conjI impI)
  show "agc_execute q x =
     (let e' = Re (x * cnj x);
          e_hat' = sqrt e';
          e_out = e_hat' * g q;
          gain = (if e_out > e_target q
                  then g q * (1 - beta q * (e_out - e_target q) / e_out)
                  else g q * (1 + beta q * (e_target q - e_out) / e_target q));
          gain' = (if gain > g_max q then g_max q else if gain < g_min q then g_min q else gain)
      in if e_out > e_target q \<and> e_out = 0 then Inl Div_by_zero
         else if e_out \<le> e_target q \<and> e_target q = 0 then Inl Div_by_zero
         else Inr (q\<lparr>e := e', e_hat := e_hat', g := gain'\<rparr>, x * of_real gain'))"
    using assms unfolding agc_execute_def agc_estimate_gain_exp_eq Let_def
    by (simp add: agc_limit_gain_def)
next
  assume r: "agc_estimate_gain_exp q x = Inr q1"
  then show "e_prime q1 = e_prime q" by (simp add: agc_estimate_gain_exp_frame)
  from r show "g q1 = (let e_out = sqrt (Re (x * cnj x)) * g q
                in if e_out > e_target q
                   then g q * (1 - beta q * (e_out - e_target q) / e_out)
                   else g q * (1 + beta q * (e_target q - e_out) / e_target q))"
    unfolding agc_estimate_gain_exp_eq Let_def
    by (auto split: if_splits)
qed

text \<open>
  At \<open>beta = 1/2\<close>, gain 2 and target 1: \<open>x = 2\<close> gives \<open>e_out = 4\<close> and the gain
  \<open>2 * (1 - 1/2 * 3/4) = 5/4\<close>; \<open>x = 0\<close> gives \<open>e_out = 0\<close> and the gain \<open>2 * (1 + 1/2) = 3\<close>.
\<close>

theorem agc_execute_exp_witness:
  "\<not> is_locked (tuned LIQUID_AGC_EXP) \<and> type (tuned LIQUID_AGC_EXP) = LIQUID_AGC_EXP \<and>
   agc_execute (tuned LIQUID_AGC_EXP) 2 =
     Inr ((tuned LIQUID_AGC_EXP)\<lparr>e := 4, e_hat := 2, g := 5 / 4\<rparr>, 5 / 2) \<and>
   agc_execute (tuned LIQUID_AGC_EXP) 0 =
     Inr ((tuned LIQUID_AGC_EXP)\<lparr>e := 0, e_hat := 0, g := 3\<rparr>, 0) \<and>
   agc_estimate_gain_exp (tuned LIQUID_AGC_EXP) 2
     = Inr ((tuned LIQUID_AGC_EXP)\<lparr>e := 4, e_hat := 2, g := 5 / 4\<rparr>) \<and>
   e_prime ((tuned LIQUID_AGC_EXP)\<lparr>e := 4, e_hat := 2, g := 5 / 4\<rparr>) = 4"
proof -
  have h: "\<not> is_locked (tuned LIQUID_AGC_EXP)" "type (tuned LIQUID_AGC_EXP) = LIQUID_AGC_EXP"
    by (simp_all add: tuned_def)
  have est: "agc_estimate_gain_exp (tuned LIQUID_AGC_EXP) 2
     = Inr ((tuned LIQUID_AGC_EXP)\<lparr>e := 4, e_hat := 2, g := 5 / 4\<rparr>)"
    by (simp add: agc_estimate_gain_exp_def sqrtf_def fdiv_def tuned_def)
  from agc_execute_exp [OF h, of 2 "(tuned LIQUID_AGC_EXP)\<lparr>e := 4, e_hat := 2, g := 5 / 4\<rparr>"]
    agc_execute_exp [OF h, of 0] h est show ?thesis
    by (simp add: tuned_def Let_def)
qed

section \<open>A locked object\<close>

text \<open>
  C5: \<open>agc_execute\<close> on a locked object returns \<open>x * g\<close> and the object as it was, so no
  field (gain, \<open>e\<close>, \<open>e_hat\<close>, \<open>e_prime\<close>) is written and nothing is limited; in particular
  at \<open>x = 0\<close> and \<open>x = 3 + 4i\<close>, and over any sequence of samples.
\<close>

theorem agc_execute_locked:
  "is_locked q \<Longrightarrow>
     agc_execute q x = Inr (q, x * of_real (g q)) \<and>
     agc_execute q 0 = Inr (q, 0) \<and>
     agc_execute q (Complex 3 4) = Inr (q, Complex (3 * g q) (4 * g q)) \<and>
     run (map Execute xs) q = Inr q"
proof (intro conjI)
  assume l: "is_locked q"
  then show "agc_execute q x = Inr (q, x * of_real (g q))" by (simp add: agc_execute_def)
  from l show "agc_execute q 0 = Inr (q, 0)" by (simp add: agc_execute_def)
  from l show "agc_execute q (Complex 3 4) = Inr (q, Complex (3 * g q) (4 * g q))"
    by (simp add: agc_execute_def complex_eq_iff)
  from l show "run (map Execute xs) q = Inr q"
    by (induction xs) (simp_all add: agc_execute_def)
qed

theorem agc_execute_locked_witness:
  "is_locked limits_moved \<and>
   agc_execute limits_moved (Complex 3 4) = Inr (limits_moved, Complex 3 4) \<and>
   run (map Execute [0, Complex 3 4]) limits_moved = Inr limits_moved"
proof -
  have lk: "is_locked limits_moved" by (simp add: limits_moved_def)
  from agc_execute_locked [OF lk, of "Complex 3 4" "[0, Complex 3 4]"]
  show ?thesis using lk by (simp add: limits_moved_def fresh_def)
qed

section \<open>The setters\<close>

text \<open>
  C6: \<open>agc_set_target\<close> exits exactly when the target is not positive, and then the
  object is as it was; otherwise it returns the object with \<open>e_target\<close> replaced and
  nothing else written.
\<close>

theorem agc_set_target_validates:
  "(agc_set_target q t = Inl (Exited q)) = (t \<le> 0) \<and>
   (agc_set_target q t = Inr (q\<lparr>e_target := t\<rparr>)) = (0 < t) \<and>
   (\<exists>f. agc_set_target q t = Inl f) = (t \<le> 0) \<and>
   agc_set_target q 0 = Inl (Exited q) \<and>
   agc_set_target q (- 1) = Inl (Exited q)"
  by (auto simp: agc_set_target_def)




text \<open>
  C8: \<open>agc_set_bandwidth\<close> exits exactly when the bandwidth is below 0 or above 1, the
  object being as it was; otherwise it writes \<open>BT\<close>, \<open>alpha = sqrt BT\<close> and
  \<open>beta = 1 - alpha\<close> and nothing else (\<open>sqrtf\<close> is inside its domain there).
\<close>

theorem agc_set_bandwidth_validates:
  "(agc_set_bandwidth q b = Inl (Exited q)) = (b < 0 \<or> 1 < b) \<and>
   (agc_set_bandwidth q b = Inr (q\<lparr>BT := b, alpha := sqrt b, beta := 1 - sqrt b\<rparr>))
     = (0 \<le> b \<and> b \<le> 1) \<and>
   (\<exists>f. agc_set_bandwidth q b = Inl f) = (b < 0 \<or> 1 < b) \<and>
   agc_set_bandwidth q (1 / 2)
     = Inr (q\<lparr>BT := 1 / 2, alpha := sqrt (1 / 2), beta := 1 - sqrt (1 / 2)\<rparr>) \<and>
   agc_set_bandwidth q (- 1 / 10) = Inl (Exited q) \<and>
   agc_set_bandwidth q (3 / 2) = Inl (Exited q)"
  by (auto simp: agc_set_bandwidth_def sqrtf_def Let_def)

section \<open>Reset\<close>

text \<open>
  C9: \<open>agc_reset\<close> sets \<open>e_prime\<close> and \<open>e_hat\<close> to 1 and clears the lock; the gain, the
  target, the limits, the bandwidth, \<open>alpha\<close>, \<open>beta\<close> and the law (and \<open>e\<close>) are as before.
\<close>

theorem agc_reset_frame:
  "agc_reset q = q\<lparr>e_prime := 1, e_hat := 1, is_locked := False\<rparr> \<and>
   e_prime (agc_reset q) = 1 \<and> e_hat (agc_reset q) = 1 \<and> \<not> is_locked (agc_reset q) \<and>
   g (agc_reset q) = g q \<and> e_target (agc_reset q) = e_target q \<and>
   g_min (agc_reset q) = g_min q \<and> g_max (agc_reset q) = g_max q \<and>
   BT (agc_reset q) = BT q \<and> alpha (agc_reset q) = alpha q \<and> beta (agc_reset q) = beta q \<and>
   type (agc_reset q) = type q \<and> e (agc_reset q) = e q"
  by (simp add: agc_reset_def agc_unlock_def)

section \<open>No division by zero\<close>

text \<open>
  C10: start from the object \<open>agc_create\<close> returns (or from any object, of any law, with
  \<open>e_prime > 0\<close> and \<open>e_target > 0\<close>) and run any sequence of calls that return. Then
  \<open>e_prime\<close> and \<open>e_target\<close> are still positive, and \<open>agc_execute\<close> on any sample neither
  divides by zero nor takes the square root of a negative number.
\<close>

theorem agc_no_division_by_zero:
  assumes "agc_create raw = Inr q0 \<or> (0 < e_prime q0 \<and> 0 < e_target q0)"
    and "run cs q0 = Inr q"
  shows "0 < e_prime q \<and> 0 < e_target q \<and>
         agc_execute q x \<noteq> Inl Div_by_zero \<and> agc_execute q x \<noteq> Inl Sqrt_domain"
proof -
  from assms(1) have "0 < e_prime q0 \<and> 0 < e_target q0"
    by (auto simp: agc_create_eq)
  with run_keeps_positive [OF assms(2)] have p: "0 < e_prime q" "0 < e_target q"
    by simp_all
  with agc_execute_no_division_by_zero [OF p, of x] show ?thesis by simp
qed

text \<open>
  From \<open>agc_create\<close> on the block of zeros, through an unlocked and a locked
  \<open>agc_execute\<close>, \<open>agc_set_target\<close> and \<open>agc_reset\<close>, then the sample 0.
\<close>

theorem agc_no_division_by_zero_witness:
  "agc_create zero_block = Inr fresh \<and>
   run [Execute 1, Set_target 4, Lock, Execute 0, Unlock, Reset] fresh
     = Inr (fresh\<lparr>e := 1, e_target := 4\<rparr>) \<and>
   0 < e_prime (fresh\<lparr>e := 1, e_target := 4\<rparr>) \<and>
   0 < e_target (fresh\<lparr>e := 1, e_target := 4\<rparr>) \<and>
   agc_execute (fresh\<lparr>e := 1, e_target := 4\<rparr>) 0 \<noteq> Inl Div_by_zero \<and>
   agc_execute (fresh\<lparr>e := 1, e_target := 4\<rparr>) 0 \<noteq> Inl Sqrt_domain"
proof -
  have r: "run [Execute 1, Set_target 4, Lock, Execute 0, Unlock, Reset] fresh
     = Inr (fresh\<lparr>e := 1, e_target := 4\<rparr>)"
    by (simp add: agc_execute_def agc_estimate_gain_log_def agc_limit_gain_def
        sqrtf_def fdiv_def logf_def expf_def fresh_def agc_set_target_def agc_lock_def
        agc_unlock_def agc_reset_def)
  have c: "agc_create zero_block = Inr fresh \<or> (0 < e_prime fresh \<and> 0 < e_target fresh)"
    by (simp add: agc_create_zero_block)
  from agc_no_division_by_zero [OF c r, of 0] r agc_create_zero_block
  show ?thesis by simp
qed

end
